theory Spec2Isabelle
  imports Main "HOL-Library.Sublist"
begin

section \<open>Data model of the drug interaction analyzer\<close>

text \<open>
  The component \<open>DrugInteractionAnalyzer\<close> keeps four pieces of React state
  (\<open>drugs\<close>, \<open>newDrug\<close>, \<open>interactions\<close>, \<open>isAnalyzing\<close>) and reports to the
  user through \<open>toast\<close>. Strings are lists of characters; a character stands for a
  code unit below 256. The source's field \<open>id\<close> of a drug is called \<open>drug_id\<close>
  here, and the fields of a record of the mock table carry the prefix \<open>mock_\<close>
  (the source reads them as \<open>mock.drugs\<close>, \<open>interaction.severity\<close>, ...).
\<close>

datatype severity = Low | Moderate | High | Severe

record Drug =
  drug_id :: string
  name :: string
  dosage :: string
  frequency :: string

record Interaction =
  drug1 :: string
  drug2 :: string
  severity :: severity
  description :: string
  recommendation :: string

record MockInteraction =
  mock_drugs :: "string list"
  mock_severity :: severity
  mock_description :: string
  mock_recommendation :: string

record NewDrug =
  new_name :: string
  new_dosage :: string
  new_frequency :: string

datatype toast_variant = Destructive

record Toast =
  toast_title :: string
  toast_description :: string
  toast_variant :: "toast_variant option"

record state =
  drugs :: "Drug list"
  newDrug :: NewDrug
  interactions :: "Interaction list"
  isAnalyzing :: bool
  toasts :: "Toast list"

text \<open>Reading a property of \<open>undefined\<close> throws a \<open>TypeError\<close> in the source language.\<close>

datatype error = TypeError

section \<open>The mock interaction database\<close>

definition mockInteractions :: "MockInteraction list" where
  "mockInteractions =
    [ \<lparr> mock_drugs = [''warfarin'', ''aspirin''],
        mock_severity = High,
        mock_description = ''Increased risk of bleeding when used together'',
        mock_recommendation =
          ''Monitor INR levels closely and consider alternative anticoagulation'' \<rparr>,
      \<lparr> mock_drugs = [''lisinopril'', ''potassium''],
        mock_severity = Moderate,
        mock_description = ''May cause hyperkalemia (elevated potassium levels)'',
        mock_recommendation = ''Monitor serum potassium levels regularly'' \<rparr>,
      \<lparr> mock_drugs = [''metformin'', ''iodine''],
        mock_severity = Moderate,
        mock_description = ''Contrast agents may increase risk of lactic acidosis'',
        mock_recommendation =
          ''Temporarily discontinue metformin before procedures with contrast'' \<rparr> ]"

section \<open>String operations of the host language\<close>

text \<open>
  \<open>toLowerCase\<close> on code units below 256: the letters \<open>A\<close> to \<open>Z\<close> and the
  accented capitals 192 to 222 (without the multiplication sign 215) move up by 32,
  every other code unit stays.
\<close>

definition lower_char :: "char \<Rightarrow> char" where
  "lower_char c =
    (let n = (of_char c :: nat)
     in if (65 \<le> n \<and> n \<le> 90) \<or> (192 \<le> n \<and> n \<le> 222 \<and> n \<noteq> 215)
        then char_of (n + 32) else c)"

definition toLowerCase :: "string \<Rightarrow> string" where
  "toLowerCase s = map lower_char s"

text \<open>
  \<open>trim\<close> removes white space at both ends; below 256 the white space and line
  terminator code units are 9 to 13, 32 and 160.
\<close>

definition is_space :: "char \<Rightarrow> bool" where
  "is_space c =
    (let n = (of_char c :: nat) in (9 \<le> n \<and> n \<le> 13) \<or> n = 32 \<or> n = 160)"

definition trim :: "string \<Rightarrow> string" where
  "trim s = rev (dropWhile is_space (rev (dropWhile is_space s)))"

text \<open>\<open>Array.prototype.includes\<close> on an array of strings.\<close>

definition array_includes :: "'a list \<Rightarrow> 'a \<Rightarrow> bool" where
  "array_includes xs x = (x \<in> set xs)"

text \<open>Decimal rendering of a length inside a template string.\<close>

fun toString :: "nat \<Rightarrow> string" where
  "toString n =
    (if n < 10 then [char_of (48 + n)]
     else toString (n div 10) @ [char_of (48 + n mod 10)])"

declare toString.simps [simp del]

text \<open>\<open>drugs[i]\<close> followed by a property read: out of range the read throws.\<close>

definition at :: "'a list \<Rightarrow> nat \<Rightarrow> error + 'a" where
  "at xs i = (if i < length xs then Inr (xs ! i) else Inl TypeError)"

section \<open>The pairwise matcher\<close>

text \<open>
  The test of the \<open>find\<close> callback: both case-folded names are members of the
  record's \<open>drugs\<close> array.
\<close>

definition mock_matches :: "string \<Rightarrow> string \<Rightarrow> MockInteraction \<Rightarrow> bool" where
  "mock_matches d1 d2 mock =
    (array_includes (mock_drugs mock) d1 \<and> array_includes (mock_drugs mock) d2)"

text \<open>
  The body of the inner loop for the entries at positions \<open>i\<close> and \<open>j\<close>: fold both
  names, look for the first record of the table that matches, and build the finding
  from the entries' own names and the record's texts.
\<close>

definition check_pair :: "MockInteraction list \<Rightarrow> Drug \<Rightarrow> Drug \<Rightarrow> Interaction option" where
  "check_pair tbl di dj =
    (let d1 = toLowerCase (name di);
         d2 = toLowerCase (name dj)
     in case find (mock_matches d1 d2) tbl of
          None \<Rightarrow> None
        | Some interaction \<Rightarrow>
            Some \<lparr> drug1 = name di,
                   drug2 = name dj,
                   severity = mock_severity interaction,
                   description = mock_description interaction,
                   recommendation = mock_recommendation interaction \<rparr>)"

text \<open>\<open>for (let j = ...; j < drugs.length; j++)\<close>, with \<open>foundInteractions\<close> as accumulator.\<close>

function inner_loop ::
  "MockInteraction list \<Rightarrow> Drug list \<Rightarrow> nat \<Rightarrow> nat \<Rightarrow> Interaction list
    \<Rightarrow> error + Interaction list" where
  "inner_loop tbl ds i j found =
    (if j < length ds then
       (case at ds i of
          Inl e \<Rightarrow> Inl e
        | Inr di \<Rightarrow>
            (case at ds j of
               Inl e \<Rightarrow> Inl e
             | Inr dj \<Rightarrow>
                 inner_loop tbl ds i (j + 1)
                   (case check_pair tbl di dj of
                      None \<Rightarrow> found
                    | Some f \<Rightarrow> found @ [f])))
     else Inr found)"
  by pat_completeness auto
termination
  by (relation "measure (\<lambda>(tbl, ds, i, j, found). length ds - j)") auto

declare inner_loop.simps [simp del]

text \<open>\<open>for (let i = 0; i < drugs.length; i++)\<close>.\<close>

function outer_loop ::
  "MockInteraction list \<Rightarrow> Drug list \<Rightarrow> nat \<Rightarrow> Interaction list
    \<Rightarrow> error + Interaction list" where
  "outer_loop tbl ds i found =
    (if i < length ds then
       (case inner_loop tbl ds i (i + 1) found of
          Inl e \<Rightarrow> Inl e
        | Inr found' \<Rightarrow> outer_loop tbl ds (i + 1) found')
     else Inr found)"
  by pat_completeness auto
termination
  by (relation "measure (\<lambda>(tbl, ds, i, found). length ds - i)") auto

declare outer_loop.simps [simp del]

definition foundInteractions ::
  "MockInteraction list \<Rightarrow> Drug list \<Rightarrow> error + Interaction list" where
  "foundInteractions tbl ds = outer_loop tbl ds 0 []"

section \<open>The handlers of the component\<close>

text \<open>The arguments of the four \<open>useState\<close> calls; no toast has been shown yet.\<close>

definition initial_state :: state where
  "initial_state =
    \<lparr> drugs = [],
      newDrug = \<lparr> new_name = [], new_dosage = [], new_frequency = [] \<rparr>,
      interactions = [],
      isAnalyzing = False,
      toasts = [] \<rparr>"

text \<open>The \<open>onChange\<close> handler of the drug name input.\<close>

definition setNewDrug_name :: "string \<Rightarrow> state \<Rightarrow> state" where
  "setNewDrug_name v s = s\<lparr> newDrug := (newDrug s)\<lparr> new_name := v \<rparr> \<rparr>"

definition addDrug :: "string \<Rightarrow> state \<Rightarrow> state" where
  \<comment> \<open>The first argument is \<open>Date.now().toString()\<close>, read from the clock.\<close>
  "addDrug now s =
    (if trim (new_name (newDrug s)) = [] then
       s\<lparr> toasts := toasts s @
            [\<lparr> toast_title = ''Validation Error'',
               toast_description = ''Please enter a drug name'',
               toast_variant = Some Destructive \<rparr>] \<rparr>
     else
       (let drug = \<lparr> drug_id = now,
                     name = toLowerCase (trim (new_name (newDrug s))),
                     dosage = new_dosage (newDrug s),
                     frequency = new_frequency (newDrug s) \<rparr>
        in s\<lparr> drugs := drugs s @ [drug],
              newDrug := \<lparr> new_name = [], new_dosage = [], new_frequency = [] \<rparr>,
              toasts := toasts s @
                [\<lparr> toast_title = ''Drug Added'',
                   toast_description = name drug @ '' has been added to the analysis'',
                   toast_variant = None \<rparr>] \<rparr>))"

definition removeDrug :: "string \<Rightarrow> state \<Rightarrow> state" where
  "removeDrug i s =
    s\<lparr> drugs := filter (\<lambda>drug. drug_id drug \<noteq> i) (drugs s),
       interactions := [] \<rparr>"

text \<open>
  \<open>analyzeInteractions\<close> is an \<open>async\<close> handler. The click runs it up to its
  \<open>await\<close>: with fewer than two entries it shows a toast and returns, otherwise it sets
  \<open>isAnalyzing\<close> and suspends. What is suspended keeps the \<open>drugs\<close> of the render
  in which the button was clicked; the second component of the result is that list,
  or \<open>None\<close> when the handler has returned.
\<close>

definition analyzeInteractions_click :: "state \<Rightarrow> state \<times> Drug list option" where
  "analyzeInteractions_click s =
    (if length (drugs s) < 2 then
       (s\<lparr> toasts := toasts s @
             [\<lparr> toast_title = ''Insufficient Data'',
                toast_description =
                  ''Please add at least 2 drugs to analyze interactions'',
                toast_variant = Some Destructive \<rparr>] \<rparr>,
        None)
     else (s\<lparr> isAnalyzing := True \<rparr>, Some (drugs s)))"

text \<open>
  The rest of the handler, run when the delay is over: the loops over the list kept at
  the click, then \<open>setInteractions\<close>, \<open>setIsAnalyzing(false)\<close> and the closing toast,
  applied to the state the component has by then.
\<close>

definition analyzeInteractions_resume :: "Drug list \<Rightarrow> state \<Rightarrow> error + state" where
  "analyzeInteractions_resume captured s =
    (case foundInteractions mockInteractions captured of
       Inl e \<Rightarrow> Inl e
     | Inr found \<Rightarrow>
         Inr (s\<lparr> interactions := found,
                 isAnalyzing := False,
                 toasts := toasts s @
                   [if length found = 0 then
                      \<lparr> toast_title = ''Analysis Complete'',
                        toast_description =
                          ''No significant interactions detected between the entered medications'',
                        toast_variant = None \<rparr>
                    else
                      \<lparr> toast_title = ''Interactions Found'',
                        toast_description =
                          toString (length found) @ '' potential interaction(s) detected'',
                        toast_variant = Some Destructive \<rparr>] \<rparr>))"

text \<open>
  A run of the handler in which the component handles \<open>others\<close> (the handlers of the
  clicks made in the meantime, composed) between the click and the end of the delay.
  The buttons that add and remove entries stay enabled while \<open>isAnalyzing\<close> is set.
\<close>

definition analyzeInteractions_during :: "(state \<Rightarrow> state) \<Rightarrow> state \<Rightarrow> error + state" where
  "analyzeInteractions_during others s =
    (case analyzeInteractions_click s of
       (s1, None) \<Rightarrow> Inr (others s1)
     | (s1, Some captured) \<Rightarrow> analyzeInteractions_resume captured (others s1))"

text \<open>The run in which nothing else is handled before the delay is over.\<close>

definition analyzeInteractions :: "state \<Rightarrow> error + state" where
  "analyzeInteractions s = analyzeInteractions_during (\<lambda>s1. s1) s"

section \<open>The iteration order and what the specification calls an exact match\<close>

text \<open>The position pairs in the order the nested loops visit them.\<close>

definition index_pairs :: "nat \<Rightarrow> (nat \<times> nat) list" where
  "index_pairs n = concat (map (\<lambda>i. map (Pair i) [Suc i..<n]) [0..<n])"

text \<open>
  The reading of the specification: a record matches a pair of names when its drug
  pair, as an unordered set, is exactly the set of the two names.
\<close>

definition spec_pair_match :: "string \<Rightarrow> string \<Rightarrow> MockInteraction \<Rightarrow> bool" where
  "spec_pair_match a b mock = (set (mock_drugs mock) = {a, b})"

definition spec_matching_pairs :: "MockInteraction list \<Rightarrow> Drug list \<Rightarrow> (nat \<times> nat) list" where
  "spec_matching_pairs tbl ds =
    filter (\<lambda>(i, j). list_ex (spec_pair_match (toLowerCase (name (ds ! i)))
                                               (toLowerCase (name (ds ! j)))) tbl)
      (index_pairs (length ds))"

text \<open>The position pairs for which the membership test of the source finds a record.\<close>

definition code_matching_pairs :: "MockInteraction list \<Rightarrow> Drug list \<Rightarrow> (nat \<times> nat) list" where
  "code_matching_pairs tbl ds =
    filter (\<lambda>(i, j). list_ex (mock_matches (toLowerCase (name (ds ! i)))
                                            (toLowerCase (name (ds ! j)))) tbl)
      (index_pairs (length ds))"

text \<open>Lexicographic order on position pairs: outer index first, then inner index.\<close>

definition lex_less :: "nat \<times> nat \<Rightarrow> nat \<times> nat \<Rightarrow> bool" where
  "lex_less p q = (fst p < fst q \<or> (fst p = fst q \<and> snd p < snd q))"

text \<open>A finding with its two display names exchanged.\<close>

definition swap_names :: "Interaction \<Rightarrow> Interaction" where
  "swap_names f = f\<lparr> drug1 := drug2 f, drug2 := drug1 f \<rparr>"

section \<open>The loops compute a filtered map over the position pairs\<close>

lemma inner_loop_eq:
  "i < length ds \<Longrightarrow>
   inner_loop tbl ds i j found =
     Inr (found @ List.map_filter (\<lambda>j. check_pair tbl (ds ! i) (ds ! j)) [j..<length ds])"
proof (induction tbl ds i j found rule: inner_loop.induct)
  case (1 tbl ds i j found)
  show ?case
  proof (cases "j < length ds")
    case True
    then have up: "[j..<length ds] = j # [j + 1..<length ds]"
      by (simp add: upt_conv_Cons)
    from True "1.prems" have
      "inner_loop tbl ds i j found =
         inner_loop tbl ds i (j + 1)
           (case check_pair tbl (ds ! i) (ds ! j) of None \<Rightarrow> found | Some f \<Rightarrow> found @ [f])"
      by (subst inner_loop.simps) (simp add: at_def)
    also have "\<dots> =
        Inr ((case check_pair tbl (ds ! i) (ds ! j) of None \<Rightarrow> found | Some f \<Rightarrow> found @ [f])
             @ List.map_filter (\<lambda>j. check_pair tbl (ds ! i) (ds ! j)) [j + 1..<length ds])"
      using "1.IH" [OF True, of "ds ! i" "ds ! j"] True "1.prems"
      by (simp add: at_def)
    finally show ?thesis
      by (simp add: up split: option.splits)
  next
    case False
    then show ?thesis
      by (subst inner_loop.simps) simp
  qed
qed

lemma outer_loop_eq:
  "outer_loop tbl ds i found =
     Inr (found @ concat (map (\<lambda>i. List.map_filter (\<lambda>j. check_pair tbl (ds ! i) (ds ! j))
                                     [Suc i..<length ds]) [i..<length ds]))"
proof (induction tbl ds i found rule: outer_loop.induct)
  case (1 tbl ds i found)
  show ?case
  proof (cases "i < length ds")
    case True
    then have up: "[i..<length ds] = i # [i + 1..<length ds]"
      by (simp add: upt_conv_Cons)
    let ?row = "List.map_filter (\<lambda>j. check_pair tbl (ds ! i) (ds ! j)) [Suc i..<length ds]"
    have inner: "inner_loop tbl ds i (i + 1) found = Inr (found @ ?row)"
      using inner_loop_eq [OF True] by simp
    have inner': "inner_loop tbl ds i (Suc i) found = Inr (found @ ?row)"
      using inner by simp
    have "outer_loop tbl ds i found = outer_loop tbl ds (i + 1) (found @ ?row)"
      using True by (subst outer_loop.simps) (simp add: inner')
    also have "\<dots> =
        Inr ((found @ ?row) @
             concat (map (\<lambda>i. List.map_filter (\<lambda>j. check_pair tbl (ds ! i) (ds ! j))
                                [Suc i..<length ds]) [i + 1..<length ds]))"
      using "1.IH" [OF True inner] .
    finally show ?thesis
      by (simp add: up)
  next
    case False
    then show ?thesis
      by (subst outer_loop.simps) simp
  qed
qed

lemma map_filter_app:
  "List.map_filter f (xs @ ys) = List.map_filter f xs @ List.map_filter f ys"
  by (simp add: List.map_filter_def)

lemma map_filter_concat:
  "List.map_filter f (concat xss) = concat (map (List.map_filter f) xss)"
  by (induction xss) (simp_all add: map_filter_app)

lemma map_filter_map_comp:
  "List.map_filter f (map g xs) = List.map_filter (f \<circ> g) xs"
  by (simp add: List.map_filter_def filter_map comp_def)

lemma foundInteractions_eq:
  "foundInteractions tbl ds =
     Inr (List.map_filter (\<lambda>(i, j). check_pair tbl (ds ! i) (ds ! j))
            (index_pairs (length ds)))"
  unfolding foundInteractions_def index_pairs_def
  by (simp add: outer_loop_eq map_filter_concat map_filter_map_comp comp_def)


lemma check_pair_find:
  "check_pair tbl di dj =
     map_option (\<lambda>r. \<lparr> drug1 = name di, drug2 = name dj, severity = mock_severity r,
                       description = mock_description r,
                       recommendation = mock_recommendation r \<rparr>)
       (find (mock_matches (toLowerCase (name di)) (toLowerCase (name dj))) tbl)"
  by (simp add: check_pair_def Let_def split: option.splits)

lemmas matcher_defs =
  check_pair_def mock_matches_def array_includes_def toLowerCase_def lower_char_def
  mockInteractions_def index_pairs_def Let_def

lemmas analyze_defs =
  analyzeInteractions_def analyzeInteractions_during_def analyzeInteractions_click_def
  analyzeInteractions_resume_def

section \<open>The position pairs\<close>

lemma set_index_pairs: "set (index_pairs n) = {(i, j). i < j \<and> j < n}"
proof -
  have "(i, j) \<in> set (index_pairs n) \<longleftrightarrow> i < j \<and> j < n" for i j
    unfolding index_pairs_def by (auto simp: image_iff)
  then show ?thesis by auto
qed

lemma rows_from:
  "k < n \<Longrightarrow> concat (map (\<lambda>i. map (Pair i) [Suc i..<n]) [k..<n]) =
     map (Pair k) [Suc k..<n] @ concat (map (\<lambda>i. map (Pair i) [Suc i..<n]) [Suc k..<n])"
  by (simp add: upt_conv_Cons)

lemma sorted_rows_from:
  "sorted_wrt lex_less (concat (map (\<lambda>i. map (Pair i) [Suc i..<n]) [k..<n]))"
proof (induction "n - k" arbitrary: k)
  case 0
  then show ?case by simp
next
  case (Suc m)
  then have kn: "k < n" and m: "m = n - Suc k" by simp_all
  have row: "sorted_wrt lex_less (map (Pair k) [Suc k..<n])"
    by (simp add: sorted_wrt_map lex_less_def sorted_wrt_iff_nth_less)
  have cross: "\<forall>p \<in> set (map (Pair k) [Suc k..<n]).
      \<forall>q \<in> set (concat (map (\<lambda>i. map (Pair i) [Suc i..<n]) [Suc k..<n])). lex_less p q"
    by (auto simp: lex_less_def)
  show ?case
    using row cross Suc.hyps(1) [OF m]
    by (simp only: rows_from [OF kn] sorted_wrt_append)
qed

lemma sorted_index_pairs: "sorted_wrt lex_less (index_pairs n)"
  unfolding index_pairs_def using sorted_rows_from [of n 0] by simp

section \<open>Case folding\<close>

lemma lower_char_idem: "lower_char (lower_char c) = lower_char c"
  unfolding lower_char_def Let_def by auto

lemma toLowerCase_idem: "toLowerCase (toLowerCase s) = toLowerCase s"
  by (simp add: toLowerCase_def lower_char_idem)

section \<open>The membership test against the exact pair test\<close>

lemma mock_matches_commute: "mock_matches a b mock = mock_matches b a mock"
  by (auto simp: mock_matches_def)

lemma mock_matches_exact:
  "a \<noteq> b \<Longrightarrow> length (mock_drugs mock) = 2 \<Longrightarrow>
   mock_matches a b mock = spec_pair_match a b mock"
  unfolding mock_matches_def spec_pair_match_def array_includes_def
  by (cases "mock_drugs mock"; cases "tl (mock_drugs mock)") auto

lemma list_ex_exact:
  assumes "a \<noteq> b" and "\<forall>r \<in> set tbl. length (mock_drugs r) = 2"
  shows "list_ex (mock_matches a b) tbl = list_ex (spec_pair_match a b) tbl"
  using assms by (auto simp: list_ex_iff mock_matches_exact)

lemma find_None_list_ex: "(find P xs \<noteq> None) = list_ex P xs"
  by (induction xs) simp_all

lemma find_filter_hd:
  "find P xs = (case filter P xs of [] \<Rightarrow> None | x # _ \<Rightarrow> Some x)"
  by (induction xs) simp_all

lemma check_pair_Some_iff:
  "(\<exists>f. check_pair tbl di dj = Some f) =
     list_ex (mock_matches (toLowerCase (name di)) (toLowerCase (name dj))) tbl"
  by (simp add: check_pair_find find_None_list_ex [symmetric])

lemma length_map_filter:
  "length (List.map_filter f xs) = length (filter (\<lambda>x. f x \<noteq> None) xs)"
  by (simp add: List.map_filter_def)

text \<open>The number of findings is the number of position pairs that pass the membership test.\<close>

lemma length_foundInteractions:
  "map_sum id length (foundInteractions tbl ds) = Inr (length (code_matching_pairs tbl ds))"
  by (simp add: foundInteractions_eq length_map_filter code_matching_pairs_def
        check_pair_Some_iff case_prod_unfold)

text \<open>
  Where no two entries share a folded name and every record of the table lists two
  drugs, the membership test and the exact pair test select the same position pairs.
\<close>

lemma matching_pairs_agree:
  assumes "distinct (map (\<lambda>d. toLowerCase (name d)) ds)"
    and "\<forall>r \<in> set tbl. length (mock_drugs r) = 2"
  shows "code_matching_pairs tbl ds = spec_matching_pairs tbl ds"
proof -
  have "list_ex (mock_matches (toLowerCase (name (ds ! i))) (toLowerCase (name (ds ! j)))) tbl =
        list_ex (spec_pair_match (toLowerCase (name (ds ! i))) (toLowerCase (name (ds ! j)))) tbl"
    if "(i, j) \<in> set (index_pairs (length ds))" for i j
  proof -
    from that have ij: "i < j" "j < length ds"
      by (simp_all add: set_index_pairs)
    then have "map (\<lambda>d. toLowerCase (name d)) ds ! i \<noteq> map (\<lambda>d. toLowerCase (name d)) ds ! j"
      using assms(1) by (simp add: nth_eq_iff_index_eq del: nth_map)
    with ij have "toLowerCase (name (ds ! i)) \<noteq> toLowerCase (name (ds ! j))"
      by simp
    then show ?thesis
      using assms(2) by (rule list_ex_exact)
  qed
  then show ?thesis
    unfolding code_matching_pairs_def spec_matching_pairs_def
    by (intro filter_cong) auto
qed

lemma check_pair_swap:
  "check_pair tbl dj di = map_option swap_names (check_pair tbl di dj)"
proof -
  have "mock_matches a b = mock_matches b a" for a b
    by (rule ext) (rule mock_matches_commute)
  then have "find (mock_matches (toLowerCase (name dj)) (toLowerCase (name di))) tbl =
             find (mock_matches (toLowerCase (name di)) (toLowerCase (name dj))) tbl"
    by simp
  then show ?thesis
    by (simp add: check_pair_find swap_names_def option.map_comp comp_def)
qed

section \<open>Names as \<open>addDrug\<close> stores them\<close>

text \<open>
  An entry made by \<open>addDrug\<close> holds the typed name trimmed and folded to lower case,
  so the fold of the matcher leaves the names of such entries as they are.
\<close>

lemma addDrug_names:
  "trim (new_name (newDrug s)) \<noteq> [] \<Longrightarrow>
   map name (drugs (addDrug now s)) =
     map name (drugs s) @ [toLowerCase (trim (new_name (newDrug s)))]"
  by (simp add: addDrug_def Let_def)

lemma addDrug_names_folded:
  "\<forall>d \<in> set (drugs s). toLowerCase (name d) = name d \<Longrightarrow>
   \<forall>d \<in> set (drugs (addDrug now s)). toLowerCase (name d) = name d"
  by (auto simp: addDrug_def Let_def toLowerCase_idem)

section \<open>The claims of the specification\<close>

text \<open>
  C1. The specification says that a finding is emitted for a position pair exactly when a
  record's drug pair equals the unordered set of the two folded names, and that two
  entries named metformin yield no finding. The source tests membership of each name
  in the record's array instead, so two entries with the same name match every record
  that lists that name: on the table of the program the two metformin entries yield one
  finding, taken from the record for metformin and iodine, although no record's pair is
  the set of the two names. The user reaches this input by adding metformin twice.
\<close>

theorem duplicate_name_yields_finding:
  "foundInteractions mockInteractions
     [\<lparr> drug_id = ''1'', name = ''metformin'', dosage = ''500mg'', frequency = ''Daily'' \<rparr>,
      \<lparr> drug_id = ''2'', name = ''metformin'', dosage = ''500mg'', frequency = ''Daily'' \<rparr>] =
   Inr [\<lparr> drug1 = ''metformin'', drug2 = ''metformin'', severity = Moderate,
          description = ''Contrast agents may increase risk of lactic acidosis'',
          recommendation =
            ''Temporarily discontinue metformin before procedures with contrast'' \<rparr>]
   \<and> filter (spec_pair_match ''metformin'' ''metformin'') mockInteractions = []
   \<and> map_sum id interactions
       (analyzeInteractions
          (addDrug ''2'' (setNewDrug_name ''metformin''
            (addDrug ''1'' (setNewDrug_name ''metformin'' initial_state))))) =
     Inr [\<lparr> drug1 = ''metformin'', drug2 = ''metformin'', severity = Moderate,
            description = ''Contrast agents may increase risk of lactic acidosis'',
            recommendation =
              ''Temporarily discontinue metformin before procedures with contrast'' \<rparr>]"
proof -
  have "map_sum id interactions
       (analyzeInteractions
          (addDrug ''2'' (setNewDrug_name ''metformin''
            (addDrug ''1'' (setNewDrug_name ''metformin'' initial_state))))) =
     Inr [\<lparr> drug1 = ''metformin'', drug2 = ''metformin'', severity = Moderate,
            description = ''Contrast agents may increase risk of lactic acidosis'',
            recommendation =
              ''Temporarily discontinue metformin before procedures with contrast'' \<rparr>]"
    by code_simp
  then show ?thesis
    by (simp add: foundInteractions_eq matcher_defs spec_pair_match_def)
qed

text \<open>
  C2. On the table of the program, two entries named warfarin and aspirin give exactly
  one finding, of severity high; with a third entry named lisinopril the result is the
  same single finding, and nothing is reported for lisinopril. The other fields of the
  entries are arbitrary.
\<close>

theorem mock_table_examples:
  "foundInteractions mockInteractions
     [w\<lparr> name := ''warfarin'' \<rparr>, a\<lparr> name := ''aspirin'' \<rparr>] =
   Inr [\<lparr> drug1 = ''warfarin'', drug2 = ''aspirin'', severity = High,
          description = ''Increased risk of bleeding when used together'',
          recommendation =
            ''Monitor INR levels closely and consider alternative anticoagulation'' \<rparr>]
   \<and>
   foundInteractions mockInteractions
     [w\<lparr> name := ''warfarin'' \<rparr>, a\<lparr> name := ''aspirin'' \<rparr>, l\<lparr> name := ''lisinopril'' \<rparr>] =
   Inr [\<lparr> drug1 = ''warfarin'', drug2 = ''aspirin'', severity = High,
          description = ''Increased risk of bleeding when used together'',
          recommendation =
            ''Monitor INR levels closely and consider alternative anticoagulation'' \<rparr>]"
  by (simp add: foundInteractions_eq matcher_defs)

text \<open>
  C3. The specification says that the number of findings is the number of position pairs
  whose folded names are exactly some record's pair. For the two metformin entries the
  source returns one finding while no position pair is an exact match: the count of the
  source is that of the membership test.
\<close>

theorem duplicate_name_count:
  "map_sum id length
     (foundInteractions mockInteractions
        [\<lparr> drug_id = ''1'', name = ''metformin'', dosage = ''500mg'', frequency = ''Daily'' \<rparr>,
         \<lparr> drug_id = ''2'', name = ''metformin'', dosage = ''500mg'', frequency = ''Daily'' \<rparr>])
     = Inr 1
   \<and> length (spec_matching_pairs mockInteractions
        [\<lparr> drug_id = ''1'', name = ''metformin'', dosage = ''500mg'', frequency = ''Daily'' \<rparr>,
         \<lparr> drug_id = ''2'', name = ''metformin'', dosage = ''500mg'', frequency = ''Daily'' \<rparr>])
     = 0"
  by (simp add: foundInteractions_eq matcher_defs spec_matching_pairs_def spec_pair_match_def)

text \<open>
  C4, as stated, fails on what the user supplies: Warfarin and Aspirin are typed with
  capital initials and added, and the finding of the analysis names warfarin and aspirin
  in lower case. \<open>addDrug\<close> has folded the names before they reach the list.
\<close>

theorem typed_casing_lost:
  "map_sum id interactions
     (analyzeInteractions
        (addDrug ''2'' (setNewDrug_name ''Aspirin''
          (addDrug ''1'' (setNewDrug_name ''Warfarin'' initial_state))))) =
   Inr [\<lparr> drug1 = ''warfarin'', drug2 = ''aspirin'', severity = High,
          description = ''Increased risk of bleeding when used together'',
          recommendation =
            ''Monitor INR levels closely and consider alternative anticoagulation'' \<rparr>]
   \<and> ''warfarin'' \<noteq> ''Warfarin'' \<and> ''aspirin'' \<noteq> ''Aspirin''"
proof -
  have "map_sum id interactions
     (analyzeInteractions
        (addDrug ''2'' (setNewDrug_name ''Aspirin''
          (addDrug ''1'' (setNewDrug_name ''Warfarin'' initial_state))))) =
   Inr [\<lparr> drug1 = ''warfarin'', drug2 = ''aspirin'', severity = High,
          description = ''Increased risk of bleeding when used together'',
          recommendation =
            ''Monitor INR levels closely and consider alternative anticoagulation'' \<rparr>]"
    by code_simp
  then show ?thesis by simp
qed

text \<open>
  C4, amended. For every list of entries, the table test of a position pair is made on
  the folded names of the two entries, and the finding of a matching pair carries the
  \<open>name\<close> fields of the two entries as the list stores them, with the severity,
  description and recommendation of the record found. The name that \<open>addDrug\<close> stores
  is the typed text trimmed and folded to lower case, so the casing of what was typed
  is not kept, and folding a stored name again leaves it as it is.
\<close>

theorem finding_carries_stored_names:
  "foundInteractions tbl ds =
     Inr (List.map_filter
            (\<lambda>(i, j).
               map_option
                 (\<lambda>r. \<lparr> drug1 = name (ds ! i), drug2 = name (ds ! j),
                         severity = mock_severity r,
                         description = mock_description r,
                         recommendation = mock_recommendation r \<rparr>)
                 (find (mock_matches (toLowerCase (name (ds ! i)))
                                     (toLowerCase (name (ds ! j)))) tbl))
            (index_pairs (length ds)))
   \<and> (trim (new_name (newDrug s)) \<noteq> [] \<longrightarrow>
        map name (drugs (addDrug now s)) =
          map name (drugs s) @ [toLowerCase (trim (new_name (newDrug s)))]
        \<and> toLowerCase (name (last (drugs (addDrug now s)))) =
            name (last (drugs (addDrug now s))))"
  by (simp add: foundInteractions_eq check_pair_find addDrug_def Let_def toLowerCase_idem)

theorem finding_carries_stored_names_witness:
  "trim '' Warfarin '' \<noteq> []
   \<and> map name (drugs (addDrug ''1'' (setNewDrug_name '' Warfarin '' initial_state))) =
       [''warfarin'']"
proof -
  let ?s = "setNewDrug_name '' Warfarin '' initial_state"
  have typed: "new_name (newDrug ?s) = '' Warfarin ''"
    by (simp add: setNewDrug_name_def)
  have h: "trim '' Warfarin '' \<noteq> []"
    by code_simp
  have v: "map name (drugs ?s) @ [toLowerCase (trim '' Warfarin '')] = [''warfarin'']"
    by code_simp
  from finding_carries_stored_names [of mockInteractions "[]" ?s "''1''"] h typed
  have "map name (drugs (addDrug ''1'' ?s)) =
          map name (drugs ?s) @ [toLowerCase (trim '' Warfarin '')]"
    by simp
  with h v show ?thesis by simp
qed

text \<open>
  C5. The result lists the findings of the matching position pairs in the order of the
  nested loops: it is the list of position pairs, filtered and mapped in place, and
  that list holds every pair of positions \<open>i < j\<close> once, in increasing order of \<open>i\<close>
  and, for equal \<open>i\<close>, in increasing order of \<open>j\<close>.
\<close>

theorem findings_in_iteration_order:
  "foundInteractions tbl ds =
     Inr (List.map_filter (\<lambda>(i, j). check_pair tbl (ds ! i) (ds ! j))
            (index_pairs (length ds)))
   \<and> sorted_wrt lex_less (index_pairs (length ds))
   \<and> set (index_pairs (length ds)) = {(i, j). i < j \<and> j < length ds}"
  by (simp add: foundInteractions_eq sorted_index_pairs set_index_pairs)

text \<open>
  C6. Matching does not depend on the order of the two names: a record matches the
  names \<open>(a, b)\<close> exactly when it matches \<open>(b, a)\<close>, the same record of the table is
  found for both orders, and exchanging two entries of the input gives the same
  findings with the two display names exchanged.
\<close>

theorem matching_symmetric:
  "mock_matches a b mock = mock_matches b a mock
   \<and> find (mock_matches a b) tbl = find (mock_matches b a) tbl
   \<and> check_pair tbl dj di = map_option swap_names (check_pair tbl di dj)
   \<and> foundInteractions tbl [dj, di] =
       map_sum id (map swap_names) (foundInteractions tbl [di, dj])"
proof -
  have "mock_matches a b = mock_matches b a" for a b
    by (rule ext) (rule mock_matches_commute)
  then have "find (mock_matches a b) tbl = find (mock_matches b a) tbl"
    by simp
  moreover have "foundInteractions tbl [dj, di] =
       map_sum id (map swap_names) (foundInteractions tbl [di, dj])"
    by (simp add: foundInteractions_eq index_pairs_def check_pair_swap [of tbl dj di]
          split: option.splits)
  ultimately show ?thesis
    using mock_matches_commute [of a b mock] check_pair_swap [of tbl dj di] by blast
qed

text \<open>
  C7. With fewer than two entries \<open>analyzeInteractions\<close> returns at its guard: it does
  not fail, the loops are not run, and the state is the state before the call with the
  toast "Insufficient Data" added; the stored findings, the entries and the
  analyzing flag are those of before.
\<close>

theorem too_few_entries:
  "length (drugs s) < 2 \<Longrightarrow>
   analyzeInteractions s =
     Inr (s\<lparr> toasts := toasts s @
               [\<lparr> toast_title = ''Insufficient Data'',
                  toast_description = ''Please add at least 2 drugs to analyze interactions'',
                  toast_variant = Some Destructive \<rparr>] \<rparr>)"
  by (simp add: analyze_defs)

theorem too_few_entries_witness:
  "length (drugs (addDrug ''1'' (setNewDrug_name ''warfarin'' initial_state))) < 2
   \<and> map_sum id interactions
       (analyzeInteractions (addDrug ''1'' (setNewDrug_name ''warfarin'' initial_state))) =
     Inr (interactions (addDrug ''1'' (setNewDrug_name ''warfarin'' initial_state)))
   \<and> map_sum id (map toast_title \<circ> toasts)
       (analyzeInteractions (addDrug ''1'' (setNewDrug_name ''warfarin'' initial_state))) =
     Inr [''Drug Added'', ''Insufficient Data'']"
proof -
  let ?s = "addDrug ''1'' (setNewDrug_name ''warfarin'' initial_state)"
  have h: "length (drugs ?s) < 2"
    by code_simp
  have t: "map toast_title (toasts ?s) = [''Drug Added'']"
    by code_simp
  show ?thesis
    using h t by (simp add: too_few_entries [OF h])
qed

text \<open>
  C8. The matcher returns a list of findings for every table and every list of entries:
  no run of the loops fails. The handler stores what the matcher returns for the
  entries of the state, whatever else the state holds, so a second analysis of the same
  entries stores the same findings as the first.
\<close>

theorem matcher_total_and_repeatable:
  "(\<exists>found. foundInteractions tbl ds = Inr found)
   \<and> (\<exists>s1 s2. analyzeInteractions s = Inr s1 \<and> analyzeInteractions s1 = Inr s2
        \<and> drugs s1 = drugs s \<and> drugs s2 = drugs s
        \<and> interactions s2 = interactions s1)
   \<and> (2 \<le> length (drugs s) \<longrightarrow>
        map_sum id interactions (analyzeInteractions s) =
          foundInteractions mockInteractions (drugs s))"
proof -
  have a: "\<exists>found. foundInteractions tbl ds = Inr found"
    by (simp add: foundInteractions_eq)
  have b: "\<exists>s1 s2. analyzeInteractions s = Inr s1 \<and> analyzeInteractions s1 = Inr s2
        \<and> drugs s1 = drugs s \<and> drugs s2 = drugs s
        \<and> interactions s2 = interactions s1"
    by (simp add: analyze_defs foundInteractions_eq Let_def)
  have c: "2 \<le> length (drugs s) \<longrightarrow>
        map_sum id interactions (analyzeInteractions s) =
          foundInteractions mockInteractions (drugs s)"
    by (simp add: analyze_defs foundInteractions_eq Let_def)
  from a b c show ?thesis by blast
qed

theorem matcher_total_and_repeatable_witness:
  "2 \<le> length (drugs (addDrug ''2'' (setNewDrug_name ''aspirin''
          (addDrug ''1'' (setNewDrug_name ''warfarin'' initial_state)))))
   \<and> map_sum id interactions
       (analyzeInteractions (addDrug ''2'' (setNewDrug_name ''aspirin''
          (addDrug ''1'' (setNewDrug_name ''warfarin'' initial_state))))) =
     Inr [\<lparr> drug1 = ''warfarin'', drug2 = ''aspirin'', severity = High,
            description = ''Increased risk of bleeding when used together'',
            recommendation =
              ''Monitor INR levels closely and consider alternative anticoagulation'' \<rparr>]"
proof -
  let ?s = "addDrug ''2'' (setNewDrug_name ''aspirin''
              (addDrug ''1'' (setNewDrug_name ''warfarin'' initial_state)))"
  have h: "2 \<le> length (drugs ?s)"
    by code_simp
  have v: "foundInteractions mockInteractions (drugs ?s) =
     Inr [\<lparr> drug1 = ''warfarin'', drug2 = ''aspirin'', severity = High,
            description = ''Increased risk of bleeding when used together'',
            recommendation =
              ''Monitor INR levels closely and consider alternative anticoagulation'' \<rparr>]"
    by code_simp
  from matcher_total_and_repeatable [of mockInteractions "drugs ?s" ?s] h
  have "map_sum id interactions (analyzeInteractions ?s) =
          foundInteractions mockInteractions (drugs ?s)"
    by blast
  with h v show ?thesis by simp
qed

text \<open>
  C9. Each position pair contributes at most one finding, and the finding of a pair
  that several records match is built from the first of them in table order: the
  result is the list of position pairs mapped, pair by pair, to nothing when no record
  passes the test and otherwise to the one finding made from the head of the list of
  the records that pass it.
\<close>

theorem earliest_rule_wins:
  "foundInteractions tbl ds =
     Inr (List.map_filter
            (\<lambda>(i, j).
               case filter (mock_matches (toLowerCase (name (ds ! i)))
                                         (toLowerCase (name (ds ! j)))) tbl of
                 [] \<Rightarrow> None
               | r # _ \<Rightarrow>
                   Some \<lparr> drug1 = name (ds ! i), drug2 = name (ds ! j),
                          severity = mock_severity r,
                          description = mock_description r,
                          recommendation = mock_recommendation r \<rparr>)
            (index_pairs (length ds)))"
proof -
  have "check_pair tbl di dj =
      (case filter (mock_matches (toLowerCase (name di)) (toLowerCase (name dj))) tbl of
         [] \<Rightarrow> None
       | r # _ \<Rightarrow>
           Some \<lparr> drug1 = name di, drug2 = name dj, severity = mock_severity r,
                  description = mock_description r,
                  recommendation = mock_recommendation r \<rparr>)" for di dj
    by (simp add: check_pair_find find_filter_hd split: list.splits)
  then show ?thesis
    by (simp add: foundInteractions_eq)
qed

text \<open>
  An input where two records pass the test for one position pair: both list warfarin,
  and warfarin was entered twice. The single finding has the texts of the first record.
\<close>

theorem earliest_rule_wins_example:
  "length (filter (mock_matches ''warfarin'' ''warfarin'')
     [\<lparr> mock_drugs = [''warfarin'', ''aspirin''], mock_severity = High,
        mock_description = ''first'', mock_recommendation = ''one'' \<rparr>,
      \<lparr> mock_drugs = [''warfarin'', ''ibuprofen''], mock_severity = Low,
        mock_description = ''second'', mock_recommendation = ''two'' \<rparr>]) = 2
   \<and> foundInteractions
     [\<lparr> mock_drugs = [''warfarin'', ''aspirin''], mock_severity = High,
        mock_description = ''first'', mock_recommendation = ''one'' \<rparr>,
      \<lparr> mock_drugs = [''warfarin'', ''ibuprofen''], mock_severity = Low,
        mock_description = ''second'', mock_recommendation = ''two'' \<rparr>]
     [\<lparr> drug_id = ''1'', name = ''warfarin'', dosage = ''5mg'', frequency = ''Daily'' \<rparr>,
      \<lparr> drug_id = ''2'', name = ''warfarin'', dosage = ''5mg'', frequency = ''Daily'' \<rparr>] =
   Inr [\<lparr> drug1 = ''warfarin'', drug2 = ''warfarin'', severity = High,
          description = ''first'', recommendation = ''one'' \<rparr>]"
  using earliest_rule_wins
    [of "[\<lparr> mock_drugs = [''warfarin'', ''aspirin''], mock_severity = High,
            mock_description = ''first'', mock_recommendation = ''one'' \<rparr>,
          \<lparr> mock_drugs = [''warfarin'', ''ibuprofen''], mock_severity = Low,
            mock_description = ''second'', mock_recommendation = ''two'' \<rparr>]"
        "[\<lparr> drug_id = ''1'', name = ''warfarin'', dosage = ''5mg'', frequency = ''Daily'' \<rparr>,
          \<lparr> drug_id = ''2'', name = ''warfarin'', dosage = ''5mg'', frequency = ''Daily'' \<rparr>]"]
  by (simp add: mock_matches_def array_includes_def toLowerCase_def lower_char_def
        index_pairs_def Let_def)

text \<open>
  What one \<open>removeDrug\<close> step does: it keeps a subsequence of the entries, so their
  relative order is that of before; an entry with the given id occurs in it no more,
  and every other entry as often as before; the stored findings are the empty list
  right after the step, and the rest of the state is untouched.
\<close>

lemma removeDrug_step:
  "subseq (drugs (removeDrug i s)) (drugs s)
   \<and> (\<forall>d. count_list (drugs (removeDrug i s)) d =
            (if drug_id d = i then 0 else count_list (drugs s) d))
   \<and> interactions (removeDrug i s) = []
   \<and> newDrug (removeDrug i s) = newDrug s
   \<and> isAnalyzing (removeDrug i s) = isAnalyzing s
   \<and> toasts (removeDrug i s) = toasts s"
proof -
  have "count_list (filter P xs) d = (if P d then count_list xs d else 0)"
    for P :: "Drug \<Rightarrow> bool" and xs d
    by (induction xs) auto
  then show ?thesis
    by (simp add: removeDrug_def)
qed

text \<open>
  C10. The claim says that \<open>removeDrug\<close> removes the entries with the given id, keeps
  the order of the others and resets the stored findings, so that findings never
  outlive a removal. The step itself does so, but a removal made while an analysis
  awaits its delay is followed by the write of that analysis: with warfarin and aspirin
  entered, the analysis started and warfarin removed before the delay is over, the
  component ends with aspirin as its only entry and the finding for warfarin and
  aspirin on display, although the removal had emptied the findings.
\<close>

theorem stale_findings_after_removal:
  "map_sum id (map name \<circ> drugs)
     (analyzeInteractions_during (removeDrug ''1'')
        (addDrug ''2'' (setNewDrug_name ''aspirin''
          (addDrug ''1'' (setNewDrug_name ''warfarin'' initial_state))))) =
   Inr [''aspirin'']
   \<and> map_sum id interactions
     (analyzeInteractions_during (removeDrug ''1'')
        (addDrug ''2'' (setNewDrug_name ''aspirin''
          (addDrug ''1'' (setNewDrug_name ''warfarin'' initial_state))))) =
   Inr [\<lparr> drug1 = ''warfarin'', drug2 = ''aspirin'', severity = High,
          description = ''Increased risk of bleeding when used together'',
          recommendation =
            ''Monitor INR levels closely and consider alternative anticoagulation'' \<rparr>]
   \<and> interactions
       (removeDrug ''1''
          (fst (analyzeInteractions_click
             (addDrug ''2'' (setNewDrug_name ''aspirin''
               (addDrug ''1'' (setNewDrug_name ''warfarin'' initial_state))))))) = []"
  by code_simp

end
